theory Spec2Isabelle
  imports Main "HOL-Library.Multiset"
begin

section \<open>Configuration (config.py)\<close>

text \<open>
  translation.py reads three module-level constants from config.py (with the same
  values as fallback): the model name, the number of attempts and the delay between
  attempts. They are kept together in a record so that the engine can be studied for
  every value of \<open>MAX_RETRIES\<close> and \<open>RETRY_DELAY\<close>, Python ints.
\<close>

record config =
  TRANSLATION_MODEL_NAME :: string
  MAX_RETRIES :: int
  RETRY_DELAY :: int

definition default_config :: config where
  "default_config =
     \<lparr>TRANSLATION_MODEL_NAME = ''qwen3:8b'', MAX_RETRIES = 3, RETRY_DELAY = 2\<rparr>"

section \<open>Python string helpers\<close>

text \<open>
  \<open>str.strip()\<close> removes leading and trailing whitespace. Strings are lists of
  characters with the code points 0 to 255 here; the whitespace characters are those of
  that range that Python's \<open>str.isspace\<close> accepts: tab, line feed, vertical tab,
  form feed, carriage return, the four separators 0x1C-0x1F, the space, the next-line
  character 0x85 and the no-break space 0xA0.
\<close>

definition isspace :: "char \<Rightarrow> bool" where
  "isspace c \<longleftrightarrow>
     c \<in> set [CHR 0x09, CHR 0x0A, CHR 0x0B, CHR 0x0C, CHR 0x0D,
              CHR 0x1C, CHR 0x1D, CHR 0x1E, CHR 0x1F, CHR 0x20, CHR 0x85, CHR 0xA0]"

definition strip :: "string \<Rightarrow> string" where
  "strip s = rev (dropWhile isspace (rev (dropWhile isspace s)))"

text \<open>\<open>s.startswith(p)\<close> for one prefix, and for a tuple of prefixes.\<close>

definition startswith :: "string \<Rightarrow> string \<Rightarrow> bool" where
  "startswith s p \<longleftrightarrow> take (length p) s = p"

definition startswith_any :: "string \<Rightarrow> string list \<Rightarrow> bool" where
  "startswith_any s ps \<longleftrightarrow> list_ex (startswith s) ps"

text \<open>\<open>str(n)\<close> for a Python int: decimal digits, with a minus sign when negative.\<close>

definition digit_char :: "nat \<Rightarrow> char" where
  "digit_char d = ''0123456789'' ! d"

fun str_nat :: "nat \<Rightarrow> string" where
  "str_nat n = (if n < 10 then [digit_char n] else str_nat (n div 10) @ [digit_char (n mod 10)])"

declare str_nat.simps [simp del]

definition str_int :: "int \<Rightarrow> string" where
  "str_int i = (if i < 0 then CHR ''-'' # str_nat (nat (- i)) else str_nat (nat i))"

definition nl :: string where
  "nl = [CHR 0x0A]"

section \<open>The record store (traceWithThink.py)\<close>

text \<open>
  The table \<open>leetcode_reasoning\<close> of \<open>setup_database\<close>. The column
  \<open>translation_status\<close> is declared TEXT; every statement of the program that writes
  it writes one of the two literals \<open>'pending'\<close> and \<open>'completed'\<close>, and every
  query compares it with one of them, so it is an enumeration here. The nullable columns
  are options. Time stamps are readings of a clock, taken as numbers; the store
  functions get the reading as an argument, and one reading serves for both time stamps
  of an insertion.
\<close>

datatype status = Pending | Completed

type_synonym timestamp = nat

record row =
  row_id :: int
  title :: string
  content :: string
  trace_en_with_think :: string
  trace_hi_with_think :: "string option"
  translation_status :: status
  created_at :: timestamp
  translated_at :: "timestamp option"

type_synonym table = "row list"

text \<open>
  A database file either has the table or does not have it yet (\<open>sqlite3.connect\<close>
  creates the file, not the table). A statement on the missing table raises
  \<open>sqlite3.OperationalError\<close>; this is the exception that the \<open>except\<close> clauses
  of the store functions catch.
\<close>

type_synonym database = "table option"

datatype sqlite_error = OperationalError string

definition no_such_table :: sqlite_error where
  "no_such_table = OperationalError ''no such table: leetcode_reasoning''"

definition setup_database :: "database \<Rightarrow> database" where
  "setup_database db = (case db of None \<Rightarrow> Some [] | Some t \<Rightarrow> Some t)"

text \<open>
  \<open>id INTEGER PRIMARY KEY AUTOINCREMENT\<close>: a new row gets one more than the largest
  id of the table (the program deletes no row), and 1 in the empty table.
\<close>

definition next_id :: "table \<Rightarrow> int" where
  "next_id t = fold max (map row_id t) 0 + 1"

text \<open>
  The dictionaries handed to \<open>save_to_database\<close>: three required keys, and the
  optional key \<open>'trace_hi_with_think'\<close> (\<open>None\<close> when the key is absent).
\<close>

record entry =
  entry_title :: string
  entry_content :: string
  entry_trace_en_with_think :: string
  entry_trace_hi_with_think :: "string option"

definition insert_entry :: "timestamp \<Rightarrow> entry \<Rightarrow> table \<Rightarrow> table" where
  "insert_entry now e t =
     (if (case entry_trace_hi_with_think e of None \<Rightarrow> False | Some hi \<Rightarrow> hi \<noteq> [])
      then t @ [\<lparr>row_id = next_id t, title = entry_title e, content = entry_content e,
                 trace_en_with_think = entry_trace_en_with_think e,
                 trace_hi_with_think = entry_trace_hi_with_think e,
                 translation_status = Completed, created_at = now, translated_at = Some now\<rparr>]
      else t @ [\<lparr>row_id = next_id t, title = entry_title e, content = entry_content e,
                 trace_en_with_think = entry_trace_en_with_think e,
                 trace_hi_with_think = None,
                 translation_status = Pending, created_at = now, translated_at = None\<rparr>])"

definition save_to_database ::
  "database \<Rightarrow> entry list \<Rightarrow> timestamp \<Rightarrow> sqlite_error + database" where
  "save_to_database db entries_with_traces now =
     (case db of
        None \<Rightarrow> if entries_with_traces = [] then Inr None else Inl no_such_table
      | Some t \<Rightarrow> Inr (Some (fold (insert_entry now) entries_with_traces t)))"

text \<open>The dictionaries returned by \<open>get_untranslated_traces\<close>: id, title and trace.\<close>

type_synonym trace = "int \<times> string \<times> string"

definition untranslated :: "row \<Rightarrow> bool" where
  "untranslated r \<longleftrightarrow> translation_status r = Pending \<or> trace_hi_with_think r = None"

definition get_untranslated_traces :: "database \<Rightarrow> trace list" where
  "get_untranslated_traces db =
     (case db of
        None \<Rightarrow> []
      | Some t \<Rightarrow>
          map (\<lambda>r. (row_id r, title r, trace_en_with_think r))
              (sort_key row_id (filter untranslated t)))"

definition set_translation :: "string \<Rightarrow> timestamp \<Rightarrow> row \<Rightarrow> row" where
  "set_translation hindi_trace now r =
     r\<lparr>trace_hi_with_think := Some hindi_trace, translation_status := Completed,
       translated_at := Some now\<rparr>"

text \<open>
  The id is bound to the UPDATE statement as an SQLite INTEGER, a signed 64-bit number;
  every id that a row of the table can have is one. The definition describes the
  statement for such ids. (For a Python int outside that range the binding raises
  \<open>OverflowError\<close> before the statement is run.)
\<close>

definition sqlite_integer :: "int \<Rightarrow> bool" where
  "sqlite_integer i \<longleftrightarrow> - (2 ^ 63) \<le> i \<and> i < 2 ^ 63"

definition update_translation_in_database ::
  "database \<Rightarrow> int \<Rightarrow> string \<Rightarrow> timestamp \<Rightarrow> sqlite_error + database" where
  "update_translation_in_database db trace_id hindi_trace now =
     (case db of
        None \<Rightarrow> Inl no_such_table
      | Some t \<Rightarrow>
          Inr (Some (map (\<lambda>r. if row_id r = trace_id then set_translation hindi_trace now r
                               else r) t)))"

text \<open>
  The UPDATE that \<open>main\<close> issues itself in inline mode (lines 481-487), with its
  \<open>WHERE title = ? AND trace_en_with_think = ?\<close>.
\<close>

definition update_by_title_and_trace ::
  "database \<Rightarrow> string \<Rightarrow> string \<Rightarrow> string \<Rightarrow> timestamp \<Rightarrow> sqlite_error + database" where
  "update_by_title_and_trace db entry_title' trace_en hindi_trace now =
     (case db of
        None \<Rightarrow> Inl no_such_table
      | Some t \<Rightarrow>
          Inr (Some (map (\<lambda>r. if title r = entry_title' \<and> trace_en_with_think r = trace_en
                               then set_translation hindi_trace now r else r) t)))"

section \<open>The status summary (translate\_pipeline.py)\<close>

record status_counts =
  total_traces :: nat
  completed_translations :: nat
  pending_translations :: nat

text \<open>The empty dictionary returned after an exception is \<open>None\<close>.\<close>

definition check_database_status :: "database \<Rightarrow> status_counts option" where
  "check_database_status db =
     (case db of
        None \<Rightarrow> None
      | Some t \<Rightarrow>
          Some \<lparr>total_traces = length t,
                completed_translations =
                  length (filter (\<lambda>r. translation_status r = Completed
                                       \<and> trace_hi_with_think r \<noteq> None) t),
                pending_translations =
                  length (filter (\<lambda>r. translation_status r = Pending
                                       \<or> trace_hi_with_think r = None) t)\<rparr>)"

section \<open>Exceptions\<close>

text \<open>
  What can leave a function of the program as an exception: an error of the database, an
  instance of \<open>Exception\<close> of another kind (with its text), or an exception whose
  class does not derive from \<open>Exception\<close>, such as \<open>KeyboardInterrupt\<close> or
  \<open>SystemExit\<close>. A clause \<open>except Exception\<close> catches the first two and lets
  the third pass.
\<close>

datatype py_exception = Sqlite sqlite_error | Exception string | BaseException string

fun is_Exception :: "py_exception \<Rightarrow> bool" where
  "is_Exception (Sqlite e) = True"
| "is_Exception (Exception e) = True"
| "is_Exception (BaseException e) = False"

section \<open>The generation client (ollama.generate) and time.sleep\<close>

text \<open>
  The client is outside the program. One call either raises an instance of
  \<open>Exception\<close> (carrying its text, \<open>str(e)\<close>), or raises an exception that is not
  an \<open>Exception\<close>, or returns something that is falsy or has no \<open>'response'\<close> key,
  or returns a dictionary whose \<open>'response'\<close> entry is a string (an entry that is not
  a string makes \<open>.strip()\<close> raise inside the \<open>try\<close> block, which is the first
  case again). The client has a state of its own, which only its calls change: a call
  takes the state, the model name and the prompt, and gives the reply and the next state.
\<close>

datatype reply = Raises string | Interrupts string | NoResponseField | Response string

type_synonym 's client = "'s \<Rightarrow> string \<Rightarrow> string \<Rightarrow> reply \<times> 's"

text \<open>
  \<open>time.sleep\<close> is outside the program as well: for a given delay it returns
  (\<open>None\<close>) or raises. It raises \<open>ValueError\<close> for a negative delay; which large
  delays it refuses depends on the platform.
\<close>

type_synonym sleeper = "int \<Rightarrow> py_exception option"

section \<open>The translation engine (translation.py)\<close>

definition translation_prompt :: "string \<Rightarrow> string" where
  "translation_prompt text =
     ''Translate the following English text to Hindi. Maintain the technical terminology and logical flow. Provide only the Hindi translation without any additional text or explanations.''
     @ nl @ nl @ ''English text:'' @ nl @ text @ nl @ nl @ ''Hindi translation:''"

text \<open>
  The reply that the client gives to the prompt for a text when it is in state \<open>s\<close>,
  and the state in which that call leaves it.
\<close>

definition reply_to :: "config \<Rightarrow> 's client \<Rightarrow> string \<Rightarrow> 's \<Rightarrow> reply" where
  "reply_to cfg generate text s =
     fst (generate s (TRANSLATION_MODEL_NAME cfg) (translation_prompt text))"

definition after_call :: "config \<Rightarrow> 's client \<Rightarrow> string \<Rightarrow> 's \<Rightarrow> 's" where
  "after_call cfg generate text s =
     snd (generate s (TRANSLATION_MODEL_NAME cfg) (translation_prompt text))"

text \<open>
  One pass through the body of the \<open>try\<close> block up to line 114: the call, and the
  validation of what came back.
\<close>

datatype attempt = Valid string | Invalid | Raised string | Interrupted string

definition attempt_once :: "config \<Rightarrow> 's client \<Rightarrow> string \<Rightarrow> 's \<Rightarrow> attempt \<times> 's" where
  "attempt_once cfg generate text s =
     (case generate s (TRANSLATION_MODEL_NAME cfg) (translation_prompt text) of
        (Raises e, s') \<Rightarrow> (Raised e, s')
      | (Interrupts e, s') \<Rightarrow> (Interrupted e, s')
      | (NoResponseField, s') \<Rightarrow> (Invalid, s')
      | (Response r, s') \<Rightarrow>
          (let translated_text = strip r
           in if length translated_text > 0 \<and> translated_text \<noteq> text
              then (Valid translated_text, s') else (Invalid, s')))"

text \<open>
  What \<open>translate_text_to_hindi\<close> returns is a plain string in every case. The value
  below remembers in addition which \<open>return\<close> statement produced it: line 104 (the
  accepted translation) or lines 123, 140 and 143 (the error messages).
\<close>

datatype returned = Accepted string | Failure string

fun returned_text :: "returned \<Rightarrow> string" where
  "returned_text (Accepted s) = s"
| "returned_text (Failure s) = s"

fun is_failure :: "returned \<Rightarrow> bool" where
  "is_failure (Accepted s) = False"
| "is_failure (Failure s) = True"

definition error_after :: "int \<Rightarrow> string \<Rightarrow> string" where
  "error_after n msg = ''Translation error after '' @ str_int n @ '' attempts: '' @ msg"

text \<open>
  The loop \<open>for attempt in range(MAX_RETRIES)\<close>. The result is what the function
  returns, or the exception that leaves it, together with the state of the client.

  An exception of the client that is not an \<open>Exception\<close> passes the clause of line
  125 and leaves the function. When \<open>time.sleep(RETRY_DELAY)\<close> raises at line 137,
  inside the handler, the exception leaves the function; when it raises at line 120,
  inside the \<open>try\<close> block, the handler catches it if it is an \<open>Exception\<close>, finds
  \<open>attempt < MAX_RETRIES - 1\<close> again and sleeps at line 137, where it is raised once
  more: in both places the function is left with the exception of \<open>time.sleep\<close>.
  Printing and logging are not modelled.
\<close>

function retry_loop ::
  "config \<Rightarrow> sleeper \<Rightarrow> 's client \<Rightarrow> string \<Rightarrow> int \<Rightarrow> 's \<Rightarrow> (py_exception + returned) \<times> 's" where
  "retry_loop cfg time_sleep generate text attempt s =
     (if attempt < MAX_RETRIES cfg then
        (case attempt_once cfg generate text s of
           (Valid translated_text, s') \<Rightarrow> (Inr (Accepted translated_text), s')
         | (Invalid, s') \<Rightarrow>
             if attempt < MAX_RETRIES cfg - 1
             then (case time_sleep (RETRY_DELAY cfg) of
                     None \<Rightarrow> retry_loop cfg time_sleep generate text (attempt + 1) s'
                   | Some e \<Rightarrow> (Inl e, s'))
             else (Inr (Failure (error_after (MAX_RETRIES cfg) ''Failed to get valid translation'')),
                   s')
         | (Raised e, s') \<Rightarrow>
             if attempt < MAX_RETRIES cfg - 1
             then (case time_sleep (RETRY_DELAY cfg) of
                     None \<Rightarrow> retry_loop cfg time_sleep generate text (attempt + 1) s'
                   | Some e' \<Rightarrow> (Inl e', s'))
             else (Inr (Failure (error_after (MAX_RETRIES cfg) e)), s')
         | (Interrupted e, s') \<Rightarrow> (Inl (BaseException e), s'))
      else (Inr (Failure ''Translation failed: Maximum retries exceeded''), s))"
  by pat_completeness auto
termination
  by (relation "measure (\<lambda>(cfg, time_sleep, generate, text, attempt, s).
                           nat (MAX_RETRIES cfg - attempt))")
     auto

declare retry_loop.simps [simp del]

definition translate_text_to_hindi_returned ::
  "config \<Rightarrow> sleeper \<Rightarrow> 's client \<Rightarrow> string \<Rightarrow> 's \<Rightarrow> (py_exception + returned) \<times> 's" where
  "translate_text_to_hindi_returned cfg time_sleep generate text s =
     retry_loop cfg time_sleep generate text 0 s"

definition translate_text_to_hindi ::
  "config \<Rightarrow> sleeper \<Rightarrow> 's client \<Rightarrow> string \<Rightarrow> 's \<Rightarrow> (py_exception + string) \<times> 's" where
  "translate_text_to_hindi cfg time_sleep generate text s =
     (case translate_text_to_hindi_returned cfg time_sleep generate text s of
        (Inl e, s') \<Rightarrow> (Inl e, s')
      | (Inr r, s') \<Rightarrow> (Inr (returned_text r), s'))"

definition contextual_prompt :: "string \<Rightarrow> string" where
  "contextual_prompt trace_text =
     ''The following is a reasoning trace for a coding problem. Please translate it accurately to Hindi while maintaining the technical terminology and logical flow. Make sure not to use tough hindi words. Instead use simple hindi and use english words wherever technical terms are used.''
     @ nl @ nl @ trace_text"

definition translate_reasoning_trace_returned ::
  "config \<Rightarrow> sleeper \<Rightarrow> 's client \<Rightarrow> string \<Rightarrow> string \<Rightarrow> 's
     \<Rightarrow> (py_exception + returned) \<times> 's" where
  "translate_reasoning_trace_returned cfg time_sleep generate trace_text problem_title s =
     translate_text_to_hindi_returned cfg time_sleep generate (contextual_prompt trace_text) s"

definition translate_reasoning_trace ::
  "config \<Rightarrow> sleeper \<Rightarrow> 's client \<Rightarrow> string \<Rightarrow> string \<Rightarrow> 's
     \<Rightarrow> (py_exception + string) \<times> 's" where
  "translate_reasoning_trace cfg time_sleep generate trace_text problem_title s =
     translate_text_to_hindi cfg time_sleep generate (contextual_prompt trace_text) s"

section \<open>The orchestrator\<close>

text \<open>
  What a run changes: the database, the state of the client, and the number of clock
  readings made so far (\<open>datetime.now()\<close> and SQLite's \<open>CURRENT_TIMESTAMP\<close>).
  The clock itself is a parameter: reading number \<open>k\<close> gives \<open>clock k\<close>.
\<close>

record 's world =
  world_db :: database
  world_client :: 's
  world_ticks :: nat

subsection \<open>Batch mode: translate\_all\_pending\_traces (translate\_pipeline.py)\<close>

definition error_prefixes :: "string list" where
  "error_prefixes =
     [''Translation error:'', ''Translation timeout:'', ''Translation request error:'',
      ''Unexpected translation error:'']"

text \<open>
  The loop of lines 160-205, with its two counters. The \<open>try\<close> block covers the
  translation and the update; an \<open>Exception\<close> of either is counted as a failure, and
  an exception that is not an \<open>Exception\<close> ends the run.
\<close>

fun translate_pending_loop ::
  "config \<Rightarrow> sleeper \<Rightarrow> 's client \<Rightarrow> (nat \<Rightarrow> timestamp) \<Rightarrow> trace list \<Rightarrow> 's world
     \<Rightarrow> nat \<Rightarrow> nat \<Rightarrow> py_exception + ('s world \<times> nat \<times> nat)" where
  "translate_pending_loop cfg time_sleep generate clock [] w
       successful_translations failed_translations =
     Inr (w, successful_translations, failed_translations)"
| "translate_pending_loop cfg time_sleep generate clock ((trace_id, trace_title, trace_en) # rest) w
       successful_translations failed_translations =
     (case translate_reasoning_trace cfg time_sleep generate trace_en trace_title (world_client w) of
        (Inl e, s') \<Rightarrow>
          if is_Exception e
          then translate_pending_loop cfg time_sleep generate clock rest (w\<lparr>world_client := s'\<rparr>)
                 successful_translations (failed_translations + 1)
          else Inl e
      | (Inr hindi_trace, s') \<Rightarrow>
          if startswith_any hindi_trace error_prefixes
          then translate_pending_loop cfg time_sleep generate clock rest (w\<lparr>world_client := s'\<rparr>)
                 successful_translations (failed_translations + 1)
          else
            (case update_translation_in_database (world_db w) trace_id hindi_trace
                    (clock (world_ticks w)) of
               Inr db' \<Rightarrow>
                 translate_pending_loop cfg time_sleep generate clock rest
                   (w\<lparr>world_db := db', world_client := s', world_ticks := world_ticks w + 1\<rparr>)
                   (successful_translations + 1) failed_translations
             | Inl e \<Rightarrow>
                 translate_pending_loop cfg time_sleep generate clock rest
                   (w\<lparr>world_client := s', world_ticks := world_ticks w + 1\<rparr>)
                   successful_translations (failed_translations + 1)))"

record summary =
  total_processed :: nat
  successful_translations_of :: nat
  failed_translations_of :: nat

text \<open>
  The function returns nothing; the summary it prints is the second component, \<open>None\<close>
  when it leaves early (no status, nothing pending, nothing fetched).
\<close>

definition translate_all_pending_traces ::
  "config \<Rightarrow> sleeper \<Rightarrow> 's client \<Rightarrow> (nat \<Rightarrow> timestamp) \<Rightarrow> 's world
     \<Rightarrow> py_exception + ('s world \<times> summary option)" where
  "translate_all_pending_traces cfg time_sleep generate clock w =
     (case check_database_status (world_db w) of
        None \<Rightarrow> Inr (w, None)
      | Some status \<Rightarrow>
          if pending_translations status = 0 then Inr (w, None)
          else
            (let untranslated_traces = get_untranslated_traces (world_db w)
             in if untranslated_traces = [] then Inr (w, None)
                else
                  (case translate_pending_loop cfg time_sleep generate clock
                          untranslated_traces w 0 0 of
                     Inl e \<Rightarrow> Inl e
                   | Inr (w', successful, failed) \<Rightarrow>
                       Inr (w', Some \<lparr>total_processed = length untranslated_traces,
                                      successful_translations_of = successful,
                                      failed_translations_of = failed\<rparr>))))"

subsection \<open>Inline mode: main and process\_translations (traceWithThink.py)\<close>

text \<open>
  \<open>process_translations\<close> (lines 344-393) has no \<open>try\<close>: an exception of the
  translation or of the update ends the run.
\<close>

fun process_translations_loop ::
  "config \<Rightarrow> sleeper \<Rightarrow> 's client \<Rightarrow> (nat \<Rightarrow> timestamp) \<Rightarrow> trace list \<Rightarrow> 's world
     \<Rightarrow> py_exception + 's world" where
  "process_translations_loop cfg time_sleep generate clock [] w = Inr w"
| "process_translations_loop cfg time_sleep generate clock
       ((trace_id, trace_title, trace_en) # rest) w =
     (case translate_reasoning_trace cfg time_sleep generate trace_en trace_title (world_client w) of
        (Inl e, s') \<Rightarrow> Inl e
      | (Inr hindi_trace, s') \<Rightarrow>
          (case update_translation_in_database (world_db w) trace_id hindi_trace
                  (clock (world_ticks w)) of
             Inl e \<Rightarrow> Inl (Sqlite e)
           | Inr db' \<Rightarrow>
               process_translations_loop cfg time_sleep generate clock rest
                 (w\<lparr>world_db := db', world_client := s', world_ticks := world_ticks w + 1\<rparr>)))"

definition process_translations ::
  "config \<Rightarrow> sleeper \<Rightarrow> 's client \<Rightarrow> (nat \<Rightarrow> timestamp) \<Rightarrow> 's world
     \<Rightarrow> py_exception + 's world" where
  "process_translations cfg time_sleep generate clock w =
     process_translations_loop cfg time_sleep generate clock
       (get_untranslated_traces (world_db w)) w"

text \<open>
  The body of the loop of \<open>main\<close> (lines 448-499) for one entry, from the point where
  the English trace has been generated: the entry (title, content, trace) is saved, the
  trace is translated, and the UPDATE of lines 481-487 stores what came back. The
  generation of the English trace (\<open>get_reasoning_trace_with_think\<close>) is upstream of
  this and its result is part of the input.
\<close>

type_synonym traced_entry = "string \<times> string \<times> string"

fun main_step ::
  "config \<Rightarrow> sleeper \<Rightarrow> 's client \<Rightarrow> (nat \<Rightarrow> timestamp) \<Rightarrow> traced_entry \<Rightarrow> 's world
     \<Rightarrow> py_exception + 's world" where
  "main_step cfg time_sleep generate clock (entry_title', entry_content', trace_en) w =
     (case save_to_database (world_db w)
             [\<lparr>entry_title = entry_title', entry_content = entry_content',
               entry_trace_en_with_think = trace_en, entry_trace_hi_with_think = None\<rparr>]
             (clock (world_ticks w)) of
        Inl e \<Rightarrow> Inl (Sqlite e)
      | Inr db1 \<Rightarrow>
          (case translate_reasoning_trace cfg time_sleep generate trace_en entry_title'
                  (world_client w) of
             (Inl e, s') \<Rightarrow> Inl e
           | (Inr hindi_trace, s') \<Rightarrow>
               (case update_by_title_and_trace db1 entry_title' trace_en hindi_trace
                       (clock (world_ticks w + 1)) of
                  Inl e \<Rightarrow> Inl (Sqlite e)
                | Inr db2 \<Rightarrow>
                    Inr \<lparr>world_db = db2, world_client = s', world_ticks = world_ticks w + 2\<rparr>)))"

fun main_loop ::
  "config \<Rightarrow> sleeper \<Rightarrow> 's client \<Rightarrow> (nat \<Rightarrow> timestamp) \<Rightarrow> traced_entry list \<Rightarrow> 's world
     \<Rightarrow> py_exception + 's world" where
  "main_loop cfg time_sleep generate clock [] w = Inr w"
| "main_loop cfg time_sleep generate clock (e # rest) w =
     (case main_step cfg time_sleep generate clock e w of
        Inl err \<Rightarrow> Inl err
      | Inr w' \<Rightarrow> main_loop cfg time_sleep generate clock rest w')"

definition main ::
  "config \<Rightarrow> sleeper \<Rightarrow> 's client \<Rightarrow> (nat \<Rightarrow> timestamp) \<Rightarrow> traced_entry list \<Rightarrow> 's world
     \<Rightarrow> py_exception + 's world" where
  "main cfg time_sleep generate clock entries w =
     (let w0 = w\<lparr>world_db := setup_database (world_db w)\<rparr>
      in if entries = [] then Inr w0
         else
           (case main_loop cfg time_sleep generate clock entries w0 of
              Inl err \<Rightarrow> Inl err
            | Inr w1 \<Rightarrow> process_translations cfg time_sleep generate clock w1))"

section \<open>The invariant of the data model, and sequences of store operations\<close>

text \<open>
  The invariant of a record: the status is \<open>completed\<close> exactly when the translated
  trace is present and not empty. A database without the table has no record.
\<close>

definition row_invariant :: "row \<Rightarrow> bool" where
  "row_invariant r \<longleftrightarrow>
     (translation_status r = Completed)
       = (case trace_hi_with_think r of None \<Rightarrow> False | Some hi \<Rightarrow> hi \<noteq> [])"

definition store_invariant :: "database \<Rightarrow> bool" where
  "store_invariant db = (case db of None \<Rightarrow> True | Some t \<Rightarrow> list_all row_invariant t)"

text \<open>
  The three ways in which the program writes to the table, with their arguments, and a run
  of them from a given database; an exception ends the run.
\<close>

datatype store_op =
    Create "entry list" timestamp
  | ApplyTranslation int string timestamp
  | InlineUpdate string string string timestamp

fun apply_store_op :: "database \<Rightarrow> store_op \<Rightarrow> sqlite_error + database" where
  "apply_store_op db (Create entries now) = save_to_database db entries now"
| "apply_store_op db (ApplyTranslation trace_id hindi_trace now) =
     update_translation_in_database db trace_id hindi_trace now"
| "apply_store_op db (InlineUpdate entry_title' trace_en hindi_trace now) =
     update_by_title_and_trace db entry_title' trace_en hindi_trace now"

fun apply_store_ops :: "database \<Rightarrow> store_op list \<Rightarrow> sqlite_error + database" where
  "apply_store_ops db [] = Inr db"
| "apply_store_ops db (x # xs) =
     (case apply_store_op db x of Inl e \<Rightarrow> Inl e | Inr db' \<Rightarrow> apply_store_ops db' xs)"

fun writes_nonempty_text :: "store_op \<Rightarrow> bool" where
  "writes_nonempty_text (Create entries now) = True"
| "writes_nonempty_text (ApplyTranslation trace_id hindi_trace now) = (hindi_trace \<noteq> [])"
| "writes_nonempty_text (InlineUpdate entry_title' trace_en hindi_trace now) = (hindi_trace \<noteq> [])"

section \<open>Behaviours of the client\<close>

text \<open>
  A call of the client fails when it raises an \<open>Exception\<close> or returns invalid
  output: something without a response field, or a response that is empty, or equal to
  the text, once stripped.
\<close>

fun failing_reply :: "string \<Rightarrow> reply \<Rightarrow> bool" where
  "failing_reply text (Raises e) = True"
| "failing_reply text (Interrupts e) = False"
| "failing_reply text NoResponseField = True"
| "failing_reply text (Response r) = (strip r = [] \<or> strip r = text)"

text \<open>
  A client made to count the calls it serves: the count is part of its state, and
  nothing but a call changes it.
\<close>

definition counting :: "'s client \<Rightarrow> (nat \<times> 's) client" where
  "counting generate =
     (\<lambda>(n, s) model prompt. case generate s model prompt of (r, s') \<Rightarrow> (r, (Suc n, s')))"

section \<open>Example clients, platforms and stores\<close>

text \<open>
  Example clients; the state of each is the number of calls it has served. One raises
  an \<open>Exception\<close> on every call, one returns the prompt it was given, one answers
  with a translation surrounded by blanks, and one is interrupted from the keyboard on
  every call.
\<close>

definition always_raises :: "nat client" where
  "always_raises = (\<lambda>n model prompt. (Raises ''connection refused'', Suc n))"

definition echo_client :: "nat client" where
  "echo_client = (\<lambda>n model prompt. (Response prompt, Suc n))"

definition padded_client :: "nat client" where
  "padded_client = (\<lambda>n model prompt. (Response ''  namaste duniya  '', Suc n))"

definition interrupted_client :: "nat client" where
  "interrupted_client = (\<lambda>n model prompt. (Interrupts ''KeyboardInterrupt'', Suc n))"

text \<open>
  An example platform: \<open>time.sleep\<close> raises \<open>ValueError\<close> for a negative delay,
  returns for a delay of up to a day, and refuses a longer one.
\<close>

definition example_sleep :: sleeper where
  "example_sleep secs =
     (if secs < 0 then Some (Exception ''sleep length must be non-negative'')
      else if secs \<le> 86400 then None
      else Some (Exception ''timestamp too large to convert to C _PyTime_t''))"

text \<open>An entry as \<open>main\<close> saves it, and the row that the first insertion at time 10 makes of it.\<close>

definition two_sum_entry :: entry where
  "two_sum_entry =
     \<lparr>entry_title = ''Two Sum'', entry_content = ''Find two numbers that add up to a target.'',
      entry_trace_en_with_think = ''Use a hash map of the values seen so far.'',
      entry_trace_hi_with_think = None\<rparr>"

definition two_sum_row :: row where
  "two_sum_row =
     \<lparr>row_id = 1, title = ''Two Sum'', content = ''Find two numbers that add up to a target.'',
      trace_en_with_think = ''Use a hash map of the values seen so far.'',
      trace_hi_with_think = None, translation_status = Pending,
      created_at = 10, translated_at = None\<rparr>"


text \<open>Five rows, three of them translated.\<close>

definition example_row :: "int \<Rightarrow> string option \<Rightarrow> row" where
  "example_row i hi =
     \<lparr>row_id = i, title = ''Problem'', content = ''Statement'',
      trace_en_with_think = ''Reasoning'',
      trace_hi_with_think = hi,
      translation_status = (if hi = None then Pending else Completed),
      created_at = 10, translated_at = (if hi = None then None else Some 20)\<rparr>"

definition five_rows :: table where
  "five_rows =
     [example_row 1 (Some ''ek''), example_row 2 None, example_row 3 (Some ''teen''),
      example_row 4 None, example_row 5 (Some ''paanch'')]"

text \<open>A clock whose readings are 100, 101, 102, ...\<close>

definition example_clock :: "nat \<Rightarrow> timestamp" where
  "example_clock k = 100 + k"

section \<open>Properties of the retry loop\<close>

text \<open>
  One turn of the loop, by what the client replies: a valid response and an interrupt end
  it at once; after a failed call it goes on when another attempt is left and
  \<open>time.sleep\<close> returns, is left with the exception of \<open>time.sleep\<close> when that
  raises, and returns an error message when the attempt was the last.
\<close>

lemma attempt_once_eq:
  "attempt_once cfg generate src s =
     ((case reply_to cfg generate src s of
         Raises e \<Rightarrow> Raised e
       | Interrupts e \<Rightarrow> Interrupted e
       | NoResponseField \<Rightarrow> Invalid
       | Response r \<Rightarrow> if strip r \<noteq> [] \<and> strip r \<noteq> src then Valid (strip r) else Invalid),
      after_call cfg generate src s)"
  by (simp add: attempt_once_def reply_to_def after_call_def Let_def
        split: prod.splits reply.splits)

lemma reply_cases:
  "failing_reply src r \<or> (\<exists>e. r = Interrupts e)
   \<or> (\<exists>t. r = Response t \<and> strip t \<noteq> [] \<and> strip t \<noteq> src)"
  by (cases r) auto

lemma retry_loop_done:
  "\<not> attempt < MAX_RETRIES cfg \<Longrightarrow>
   retry_loop cfg time_sleep generate src attempt s =
     (Inr (Failure ''Translation failed: Maximum retries exceeded''), s)"
  by (subst retry_loop.simps) simp

lemma retry_loop_valid:
  "attempt < MAX_RETRIES cfg \<Longrightarrow> reply_to cfg generate src s = Response r \<Longrightarrow>
   strip r \<noteq> [] \<Longrightarrow> strip r \<noteq> src \<Longrightarrow>
   retry_loop cfg time_sleep generate src attempt s =
     (Inr (Accepted (strip r)), after_call cfg generate src s)"
  by (subst retry_loop.simps) (simp add: attempt_once_eq)

lemma retry_loop_interrupted:
  "attempt < MAX_RETRIES cfg \<Longrightarrow> reply_to cfg generate src s = Interrupts e \<Longrightarrow>
   retry_loop cfg time_sleep generate src attempt s =
     (Inl (BaseException e), after_call cfg generate src s)"
  by (subst retry_loop.simps) (simp add: attempt_once_eq)

lemma retry_loop_retry:
  "attempt < MAX_RETRIES cfg - 1 \<Longrightarrow> failing_reply src (reply_to cfg generate src s) \<Longrightarrow>
   time_sleep (RETRY_DELAY cfg) = None \<Longrightarrow>
   retry_loop cfg time_sleep generate src attempt s =
     retry_loop cfg time_sleep generate src (attempt + 1) (after_call cfg generate src s)"
  by (subst retry_loop.simps, cases "reply_to cfg generate src s")
     (auto simp add: attempt_once_eq)

lemma retry_loop_sleep_raises:
  "attempt < MAX_RETRIES cfg - 1 \<Longrightarrow> failing_reply src (reply_to cfg generate src s) \<Longrightarrow>
   time_sleep (RETRY_DELAY cfg) = Some e \<Longrightarrow>
   retry_loop cfg time_sleep generate src attempt s = (Inl e, after_call cfg generate src s)"
  by (subst retry_loop.simps, cases "reply_to cfg generate src s")
     (auto simp add: attempt_once_eq)

lemma retry_loop_last_raises:
  "attempt = MAX_RETRIES cfg - 1 \<Longrightarrow> reply_to cfg generate src s = Raises e \<Longrightarrow>
   retry_loop cfg time_sleep generate src attempt s =
     (Inr (Failure (error_after (MAX_RETRIES cfg) e)), after_call cfg generate src s)"
  by (subst retry_loop.simps) (simp add: attempt_once_eq)

lemma retry_loop_last_failing:
  "attempt = MAX_RETRIES cfg - 1 \<Longrightarrow> failing_reply src (reply_to cfg generate src s) \<Longrightarrow>
   \<exists>msg. retry_loop cfg time_sleep generate src attempt s =
     (Inr (Failure (error_after (MAX_RETRIES cfg) msg)), after_call cfg generate src s)"
  by (subst retry_loop.simps, cases "reply_to cfg generate src s")
     (auto simp add: attempt_once_eq)

lemma retry_loop_calls:
  "\<exists>j. j \<le> nat (MAX_RETRIES cfg - attempt)
       \<and> snd (retry_loop cfg time_sleep generate src attempt s)
           = (after_call cfg generate src ^^ j) s"
proof (induction "nat (MAX_RETRIES cfg - attempt)" arbitrary: attempt s)
  case 0
  then have "\<not> attempt < MAX_RETRIES cfg" by simp
  then have "snd (retry_loop cfg time_sleep generate src attempt s)
               = (after_call cfg generate src ^^ 0) s"
    by (simp add: retry_loop_done)
  then show ?case by blast
next
  case (Suc n)
  let ?step = "after_call cfg generate src"
  from Suc.hyps(2) have lt: "attempt < MAX_RETRIES cfg" by simp
  have one: "snd (retry_loop cfg time_sleep generate src attempt s) = ?step s \<Longrightarrow> ?case"
  proof -
    assume "snd (retry_loop cfg time_sleep generate src attempt s) = ?step s"
    then have "snd (retry_loop cfg time_sleep generate src attempt s) = (?step ^^ 1) s" by simp
    moreover from lt have "1 \<le> nat (MAX_RETRIES cfg - attempt)" by simp
    ultimately show ?case by blast
  qed
  consider (fail) "failing_reply src (reply_to cfg generate src s)"
    | (intr) e where "reply_to cfg generate src s = Interrupts e"
    | (valid) r where "reply_to cfg generate src s = Response r" "strip r \<noteq> []" "strip r \<noteq> src"
    using reply_cases [of src "reply_to cfg generate src s"] by blast
  then show ?case
  proof cases
    case intr
    from retry_loop_interrupted [where time_sleep = time_sleep and cfg = cfg, OF lt intr] show ?thesis by (intro one) simp
  next
    case valid
    from retry_loop_valid [where time_sleep = time_sleep and cfg = cfg, OF lt valid] show ?thesis by (intro one) simp
  next
    case fail
    show ?thesis
    proof (cases "attempt < MAX_RETRIES cfg - 1")
      case False
      with lt have "attempt = MAX_RETRIES cfg - 1" by simp
      from retry_loop_last_failing [where time_sleep = time_sleep and cfg = cfg, OF this fail] show ?thesis by (intro one) auto
    next
      case more: True
      show ?thesis
      proof (cases "time_sleep (RETRY_DELAY cfg)")
        case (Some e)
        from retry_loop_sleep_raises [where time_sleep = time_sleep and cfg = cfg, OF more fail Some] show ?thesis by (intro one) simp
      next
        case None
        from Suc.hyps(2) have n: "n = nat (MAX_RETRIES cfg - (attempt + 1))" by simp
        from Suc.hyps(1) [OF n, of "?step s"] obtain j where
          j: "j \<le> nat (MAX_RETRIES cfg - (attempt + 1))"
          and st: "snd (retry_loop cfg time_sleep generate src (attempt + 1) (?step s))
                     = (?step ^^ j) (?step s)"
          by blast
        have "snd (retry_loop cfg time_sleep generate src attempt s) = (?step ^^ Suc j) s"
          by (simp add: retry_loop_retry [where time_sleep = time_sleep and cfg = cfg, OF more fail None] st funpow_swap1)
        moreover from j more have "Suc j \<le> nat (MAX_RETRIES cfg - attempt)" by simp
        ultimately show ?thesis by blast
      qed
    qed
  qed
qed

lemma retry_loop_skip:
  "(\<forall>k<n. failing_reply src (reply_to cfg generate src ((after_call cfg generate src ^^ k) s))) \<Longrightarrow>
   time_sleep (RETRY_DELAY cfg) = None \<Longrightarrow>
   attempt + int n < MAX_RETRIES cfg \<Longrightarrow>
   retry_loop cfg time_sleep generate src attempt s =
   retry_loop cfg time_sleep generate src (attempt + int n) ((after_call cfg generate src ^^ n) s)"
proof (induction n arbitrary: attempt s)
  case 0
  then show ?case by simp
next
  case (Suc n)
  let ?step = "after_call cfg generate src"
  from Suc.prems(1) have first: "failing_reply src (reply_to cfg generate src s)"
    by (metis funpow_0 zero_less_Suc)
  have rest: "\<forall>k<n. failing_reply src (reply_to cfg generate src ((?step ^^ k) (?step s)))"
  proof (intro allI impI)
    fix k assume "k < n"
    then have "Suc k < Suc n" by simp
    with Suc.prems(1) have "failing_reply src (reply_to cfg generate src ((?step ^^ Suc k) s))"
      by blast
    then show "failing_reply src (reply_to cfg generate src ((?step ^^ k) (?step s)))"
      by (simp add: funpow_swap1)
  qed
  from Suc.prems(3) have more: "attempt < MAX_RETRIES cfg - 1" by simp
  from Suc.prems(3) have bound: "attempt + 1 + int n < MAX_RETRIES cfg" by simp
  have "retry_loop cfg time_sleep generate src attempt s =
        retry_loop cfg time_sleep generate src (attempt + 1) (?step s)"
    by (rule retry_loop_retry [where time_sleep = time_sleep and cfg = cfg, OF more first Suc.prems(2)])
  also have "\<dots> = retry_loop cfg time_sleep generate src (attempt + 1 + int n) ((?step ^^ n) (?step s))"
    by (rule Suc.IH [OF rest Suc.prems(2) bound])
  finally show ?case by (simp add: funpow_swap1 add.commute add.left_commute)
qed

lemma retry_loop_accepted:
  "fst (retry_loop cfg time_sleep generate src attempt s) = Inr (Accepted t) \<Longrightarrow>
   t \<noteq> [] \<and> t \<noteq> src \<and>
   (\<exists>k r. attempt + int k < MAX_RETRIES cfg
          \<and> reply_to cfg generate src ((after_call cfg generate src ^^ k) s) = Response r
          \<and> t = strip r)"
proof (induction "nat (MAX_RETRIES cfg - attempt)" arbitrary: attempt s)
  case 0
  then have "\<not> attempt < MAX_RETRIES cfg" by simp
  with "0.prems" show ?case by (simp add: retry_loop_done)
next
  case (Suc n)
  let ?step = "after_call cfg generate src"
  from Suc.hyps(2) have lt: "attempt < MAX_RETRIES cfg" by simp
  consider (fail) "failing_reply src (reply_to cfg generate src s)"
    | (intr) e where "reply_to cfg generate src s = Interrupts e"
    | (valid) r where "reply_to cfg generate src s = Response r" "strip r \<noteq> []" "strip r \<noteq> src"
    using reply_cases [of src "reply_to cfg generate src s"] by blast
  then show ?case
  proof cases
    case intr
    from retry_loop_interrupted [where time_sleep = time_sleep and cfg = cfg, OF lt intr] Suc.prems show ?thesis by simp
  next
    case valid
    from retry_loop_valid [where time_sleep = time_sleep and cfg = cfg, OF lt valid] Suc.prems have t: "t = strip r" by simp
    from lt valid(1) t have "\<exists>k r'. attempt + int k < MAX_RETRIES cfg
          \<and> reply_to cfg generate src ((?step ^^ k) s) = Response r' \<and> t = strip r'"
      by (intro exI [of _ 0] exI [of _ r]) simp
    with t valid(2,3) show ?thesis by simp
  next
    case fail
    show ?thesis
    proof (cases "attempt < MAX_RETRIES cfg - 1")
      case False
      with lt have "attempt = MAX_RETRIES cfg - 1" by simp
      from retry_loop_last_failing [where time_sleep = time_sleep and cfg = cfg, OF this fail] Suc.prems show ?thesis by auto
    next
      case more: True
      show ?thesis
      proof (cases "time_sleep (RETRY_DELAY cfg)")
        case (Some e)
        from retry_loop_sleep_raises [where time_sleep = time_sleep and cfg = cfg, OF more fail Some] Suc.prems show ?thesis by simp
      next
        case None
        from Suc.hyps(2) have n: "n = nat (MAX_RETRIES cfg - (attempt + 1))" by simp
        from Suc.prems have "fst (retry_loop cfg time_sleep generate src (attempt + 1) (?step s))
                               = Inr (Accepted t)"
          by (simp add: retry_loop_retry [where time_sleep = time_sleep and cfg = cfg, OF more fail None])
        from Suc.hyps(1) [OF n this] obtain k r where
          ne: "t \<noteq> []" "t \<noteq> src"
          and k: "attempt + 1 + int k < MAX_RETRIES cfg"
          and r: "reply_to cfg generate src ((?step ^^ k) (?step s)) = Response r" "t = strip r"
          by blast
        from k have "attempt + int (Suc k) < MAX_RETRIES cfg" by simp
        moreover from r(1) have "reply_to cfg generate src ((?step ^^ Suc k) s) = Response r"
          by (simp add: funpow_swap1)
        ultimately show ?thesis using ne r(2) by blast
      qed
    qed
  qed
qed

lemma retry_loop_returns:
  "time_sleep (RETRY_DELAY cfg) = None \<Longrightarrow>
   (\<forall>s' e. reply_to cfg generate src s' \<noteq> Interrupts e) \<Longrightarrow>
   \<exists>r. fst (retry_loop cfg time_sleep generate src attempt s) = Inr r"
proof (induction "nat (MAX_RETRIES cfg - attempt)" arbitrary: attempt s)
  case 0
  then have "\<not> attempt < MAX_RETRIES cfg" by simp
  then show ?case by (simp add: retry_loop_done)
next
  case (Suc n)
  let ?step = "after_call cfg generate src"
  from Suc.hyps(2) have lt: "attempt < MAX_RETRIES cfg" by simp
  consider (fail) "failing_reply src (reply_to cfg generate src s)"
    | (valid) r where "reply_to cfg generate src s = Response r" "strip r \<noteq> []" "strip r \<noteq> src"
    using reply_cases [of src "reply_to cfg generate src s"] Suc.prems(2) by blast
  then show ?case
  proof cases
    case valid
    from retry_loop_valid [where time_sleep = time_sleep and cfg = cfg, OF lt valid] show ?thesis by simp
  next
    case fail
    show ?thesis
    proof (cases "attempt < MAX_RETRIES cfg - 1")
      case False
      with lt have "attempt = MAX_RETRIES cfg - 1" by simp
      from retry_loop_last_failing [where time_sleep = time_sleep and cfg = cfg, OF this fail] show ?thesis by auto
    next
      case more: True
      from Suc.hyps(2) have n: "n = nat (MAX_RETRIES cfg - (attempt + 1))" by simp
      from Suc.hyps(1) [OF n Suc.prems] show ?thesis
        by (simp add: retry_loop_retry [where time_sleep = time_sleep and cfg = cfg, OF more fail Suc.prems(1)])
    qed
  qed
qed

lemma retry_loop_failure_text:
  "fst (retry_loop cfg time_sleep generate src attempt s) = Inr (Failure m) \<Longrightarrow>
   m = ''Translation failed: Maximum retries exceeded''
   \<or> (\<exists>msg. m = error_after (MAX_RETRIES cfg) msg)"
proof (induction "nat (MAX_RETRIES cfg - attempt)" arbitrary: attempt s)
  case 0
  then have "\<not> attempt < MAX_RETRIES cfg" by simp
  with "0.prems" show ?case by (simp add: retry_loop_done)
next
  case (Suc n)
  let ?step = "after_call cfg generate src"
  from Suc.hyps(2) have lt: "attempt < MAX_RETRIES cfg" by simp
  consider (fail) "failing_reply src (reply_to cfg generate src s)"
    | (intr) e where "reply_to cfg generate src s = Interrupts e"
    | (valid) r where "reply_to cfg generate src s = Response r" "strip r \<noteq> []" "strip r \<noteq> src"
    using reply_cases [of src "reply_to cfg generate src s"] by blast
  then show ?case
  proof cases
    case intr
    from retry_loop_interrupted [where time_sleep = time_sleep and cfg = cfg, OF lt intr] Suc.prems show ?thesis by simp
  next
    case valid
    from retry_loop_valid [where time_sleep = time_sleep and cfg = cfg, OF lt valid] Suc.prems show ?thesis by simp
  next
    case fail
    show ?thesis
    proof (cases "attempt < MAX_RETRIES cfg - 1")
      case False
      with lt have "attempt = MAX_RETRIES cfg - 1" by simp
      from retry_loop_last_failing [where time_sleep = time_sleep and cfg = cfg, OF this fail] Suc.prems show ?thesis by auto
    next
      case more: True
      show ?thesis
      proof (cases "time_sleep (RETRY_DELAY cfg)")
        case (Some e)
        from retry_loop_sleep_raises [where time_sleep = time_sleep and cfg = cfg, OF more fail Some] Suc.prems show ?thesis by simp
      next
        case None
        from Suc.hyps(2) have n: "n = nat (MAX_RETRIES cfg - (attempt + 1))" by simp
        from Suc.prems have "fst (retry_loop cfg time_sleep generate src (attempt + 1) (?step s))
                               = Inr (Failure m)"
          by (simp add: retry_loop_retry [where time_sleep = time_sleep and cfg = cfg, OF more fail None])
        from Suc.hyps(1) [OF n this] show ?thesis .
      qed
    qed
  qed
qed

text \<open>The counting client replies as the client it counts for, and adds one per call.\<close>

lemma reply_to_counting:
  "reply_to cfg (counting generate) src (n, s) = reply_to cfg generate src s"
  by (simp add: reply_to_def counting_def split: prod.splits)

lemma after_call_counting:
  "after_call cfg (counting generate) src (n, s) = (Suc n, after_call cfg generate src s)"
  by (simp add: after_call_def counting_def split: prod.splits)

lemma funpow_after_call_counting:
  "(after_call cfg (counting generate) src ^^ j) (n, s)
     = (n + j, (after_call cfg generate src ^^ j) s)"
  by (induction j) (simp_all add: after_call_counting)

lemma snd_translate_text_to_hindi:
  "snd (translate_text_to_hindi cfg time_sleep generate src s)
     = snd (retry_loop cfg time_sleep generate src 0 s)"
  by (simp add: translate_text_to_hindi_def translate_text_to_hindi_returned_def
        split: prod.splits sum.splits)

section \<open>The translation engine: acceptance, retries, exceptions\<close>

text \<open>
  A client that echoes the prompt it receives: the prompt sent to the client is the
  text wrapped in the translation instructions, so the echo differs from the text that
  line 93 compares it with, and the first attempt returns it as the translation.
\<close>

theorem echoed_prompt_accepted:
  "translate_text_to_hindi_returned default_config example_sleep echo_client ''hello'' 0
     = (Inr (Accepted (translation_prompt ''hello'')), 1)"
  by code_simp

text \<open>
  Claim C3, as the code has it: \<open>translate_text_to_hindi\<close> accepts a response only
  if, with its surrounding whitespace stripped, it is not empty and differs from the text
  handed to the function; the accepted string is the stripped response of one of at most
  \<open>MAX_RETRIES\<close> calls. So the function never returns its own text as a translation,
  and a client whose responses all strip to that text never gets one accepted. The
  comparison is with the text, not with the prompt sent to the client.
\<close>

theorem accepted_only_if_nonempty_and_different:
  "fst (translate_text_to_hindi_returned cfg time_sleep generate src s) = Inr (Accepted t) \<Longrightarrow>
   t \<noteq> [] \<and> t \<noteq> src \<and>
   (\<exists>k r. int k < MAX_RETRIES cfg
          \<and> reply_to cfg generate src ((after_call cfg generate src ^^ k) s) = Response r
          \<and> t = strip r)"
  using retry_loop_accepted [of cfg time_sleep generate src 0 s t]
  by (simp add: translate_text_to_hindi_returned_def)

theorem accepted_only_if_nonempty_and_different_witness:
  "fst (translate_text_to_hindi_returned default_config example_sleep padded_client
          ''hello world'' 0)
     = Inr (Accepted ''namaste duniya'')
   \<and> ''namaste duniya'' \<noteq> [] \<and> ''namaste duniya'' \<noteq> ''hello world''
   \<and> (\<exists>k r. int k < MAX_RETRIES default_config
          \<and> reply_to default_config padded_client ''hello world''
               ((after_call default_config padded_client ''hello world'' ^^ k) 0) = Response r
          \<and> ''namaste duniya'' = strip r)"
proof -
  have h: "fst (translate_text_to_hindi_returned default_config example_sleep padded_client
                  ''hello world'' 0)
             = Inr (Accepted ''namaste duniya'')"
    by code_simp
  from accepted_only_if_nonempty_and_different [OF h] h show ?thesis by blast
qed

text \<open>
  A client that is interrupted from the keyboard on every call, made to count its calls:
  the first call is the only one, and what leaves \<open>translate_text_to_hindi\<close> is the
  interrupt, not an error message.
\<close>

theorem interrupt_ends_retries_at_first_call:
  "fst (snd (translate_text_to_hindi default_config example_sleep (counting interrupted_client)
               ''hello'' (0, 0))) = 1
   \<and> fst (translate_text_to_hindi default_config example_sleep (counting interrupted_client)
            ''hello'' (0, 0)) = Inl (BaseException ''KeyboardInterrupt'')"
  by code_simp

text \<open>
  Claim C4, as the code has it: let the client count the calls it serves. With
  \<open>MAX_RETRIES\<close> not negative, \<open>translate_text_to_hindi\<close> makes at most
  \<open>MAX_RETRIES\<close> calls to the client, whatever the client and \<open>time.sleep\<close> do.
  When moreover \<open>time.sleep\<close> accepts the delay \<open>RETRY_DELAY\<close> and the client
  fails on every call (raises an \<open>Exception\<close>, or returns invalid output), it makes
  exactly \<open>MAX_RETRIES\<close> calls and returns one of the error messages.
\<close>

theorem retry_bound:
  "0 \<le> MAX_RETRIES cfg \<Longrightarrow>
   int (fst (snd (translate_text_to_hindi cfg time_sleep (counting generate) src (n0, s))))
     \<le> int n0 + MAX_RETRIES cfg
   \<and> (time_sleep (RETRY_DELAY cfg) = None \<longrightarrow>
      (\<forall>s'. failing_reply src (reply_to cfg generate src s')) \<longrightarrow>
      int (fst (snd (translate_text_to_hindi cfg time_sleep (counting generate) src (n0, s))))
        = int n0 + MAX_RETRIES cfg
      \<and> (\<exists>msg. fst (translate_text_to_hindi_returned cfg time_sleep (counting generate) src (n0, s))
                 = Inr (Failure msg)))"
proof -
  assume nonneg: "0 \<le> MAX_RETRIES cfg"
  let ?c = "counting generate"
  let ?step = "after_call cfg ?c src"
  let ?count = "fst (snd (translate_text_to_hindi cfg time_sleep ?c src (n0, s)))"
  have count: "?count = fst (snd (retry_loop cfg time_sleep ?c src 0 (n0, s)))"
    by (simp add: snd_translate_text_to_hindi)
  from retry_loop_calls [of cfg 0 time_sleep ?c src "(n0, s)"] obtain j where
    j: "j \<le> nat (MAX_RETRIES cfg)"
    and st: "snd (retry_loop cfg time_sleep ?c src 0 (n0, s)) = (?step ^^ j) (n0, s)"
    by auto
  from st have "?count = n0 + j"
    by (simp add: count funpow_after_call_counting)
  with j nonneg have bound: "int ?count \<le> int n0 + MAX_RETRIES cfg" by simp
  have exact: "int ?count = int n0 + MAX_RETRIES cfg
      \<and> (\<exists>msg. fst (translate_text_to_hindi_returned cfg time_sleep ?c src (n0, s))
                 = Inr (Failure msg))"
    if sleep: "time_sleep (RETRY_DELAY cfg) = None"
      and fails: "\<forall>s'. failing_reply src (reply_to cfg generate src s')"
  proof (cases "MAX_RETRIES cfg = 0")
    case True
    then have "retry_loop cfg time_sleep ?c src 0 (n0, s)
                 = (Inr (Failure ''Translation failed: Maximum retries exceeded''), (n0, s))"
      by (simp add: retry_loop_done)
    with True show ?thesis
      by (simp add: count translate_text_to_hindi_returned_def)
  next
    case False
    with nonneg have pos: "0 < MAX_RETRIES cfg" by simp
    let ?n = "nat (MAX_RETRIES cfg) - 1"
    have n: "int ?n = MAX_RETRIES cfg - 1" using pos by simp
    have all: "failing_reply src (reply_to cfg ?c src ((?step ^^ k) (n0, s)))" for k
      using fails by (simp add: funpow_after_call_counting reply_to_counting)
    have "retry_loop cfg time_sleep ?c src 0 (n0, s)
            = retry_loop cfg time_sleep ?c src (0 + int ?n) ((?step ^^ ?n) (n0, s))"
      by (rule retry_loop_skip [where time_sleep = time_sleep and cfg = cfg])
         (use all sleep pos in simp_all)
    also have "0 + int ?n = MAX_RETRIES cfg - 1" by (simp only: n add_0)
    finally have eq: "retry_loop cfg time_sleep ?c src 0 (n0, s)
            = retry_loop cfg time_sleep ?c src (MAX_RETRIES cfg - 1) ((?step ^^ ?n) (n0, s))" .
    from retry_loop_last_failing [where time_sleep = time_sleep and cfg = cfg, OF refl all [of ?n]]
    obtain msg where last: "retry_loop cfg time_sleep ?c src (MAX_RETRIES cfg - 1) ((?step ^^ ?n) (n0, s))
            = (Inr (Failure (error_after (MAX_RETRIES cfg) msg)), ?step ((?step ^^ ?n) (n0, s)))"
      by blast
    have "?step ((?step ^^ ?n) (n0, s)) = (?step ^^ Suc ?n) (n0, s)" by simp
    also have "\<dots> = (n0 + Suc ?n, (after_call cfg generate src ^^ Suc ?n) s)"
      by (rule funpow_after_call_counting)
    finally have final: "fst (?step ((?step ^^ ?n) (n0, s))) = n0 + Suc ?n" by simp
    have "?count = n0 + Suc ?n"
      by (simp only: count eq last snd_conv final)
    with pos have "int ?count = int n0 + MAX_RETRIES cfg" by simp
    moreover have "fst (translate_text_to_hindi_returned cfg time_sleep ?c src (n0, s))
                     = Inr (Failure (error_after (MAX_RETRIES cfg) msg))"
      by (simp only: translate_text_to_hindi_returned_def eq last fst_conv)
    ultimately show ?thesis by blast
  qed
  from bound exact show ?thesis by blast
qed

theorem retry_bound_witness:
  "0 \<le> MAX_RETRIES default_config
   \<and> example_sleep (RETRY_DELAY default_config) = None
   \<and> failing_reply ''hello'' (reply_to default_config always_raises ''hello'' 0)
   \<and> int (fst (snd (translate_text_to_hindi default_config example_sleep
                       (counting always_raises) ''hello'' (0, 0)))) = 3
   \<and> (\<exists>msg. fst (translate_text_to_hindi_returned default_config example_sleep
                    (counting always_raises) ''hello'' (0, 0)) = Inr (Failure msg))"
proof -
  have h0: "0 \<le> MAX_RETRIES default_config"
    by (simp add: default_config_def)
  have h1: "example_sleep (RETRY_DELAY default_config) = None"
    by (simp add: example_sleep_def default_config_def)
  have h2: "\<forall>s'. failing_reply ''hello'' (reply_to default_config always_raises ''hello'' s')"
    by (simp add: reply_to_def always_raises_def)
  from retry_bound [where time_sleep = example_sleep and generate = always_raises
                      and src = "''hello''" and ?n0.0 = 0 and s = 0, OF h0] h0 h1 h2
  show ?thesis
    by (simp add: default_config_def)
qed

text \<open>
  A client interrupted from the keyboard: \<open>KeyboardInterrupt\<close> is not an
  \<open>Exception\<close>, the clause of line 125 does not catch it, and it leaves
  \<open>translate_text_to_hindi\<close> at the first call.
\<close>

theorem interrupt_leaves_translate_text_to_hindi:
  "translate_text_to_hindi default_config example_sleep interrupted_client ''hello'' 0
     = (Inl (BaseException ''KeyboardInterrupt''), 1)"
  by code_simp

text \<open>
  With a negative delay, \<open>time.sleep\<close> raises in the handler of line 125 and its
  \<open>ValueError\<close> leaves the function after the first failed call.
\<close>

lemma negative_delay_leaves_translate_text_to_hindi:
  "translate_text_to_hindi (default_config\<lparr>RETRY_DELAY := - 1\<rparr>) example_sleep always_raises
     ''hello'' 0
     = (Inl (Exception ''sleep length must be non-negative''), 1)"
  by code_simp

text \<open>
  Claim C10, as the code has it: when \<open>time.sleep\<close> accepts the delay
  \<open>RETRY_DELAY\<close> and every exception of the client is an instance of
  \<open>Exception\<close>, \<open>translate_text_to_hindi\<close> returns a string and no exception
  leaves it; and when the attempts before the last one have failed and the client raises
  an \<open>Exception\<close> on the last one, the string returned is
  \<open>'Translation error after {MAX_RETRIES} attempts: '\<close> followed by the text of
  that exception, after \<open>MAX_RETRIES\<close> calls.
\<close>

theorem client_exceptions_become_error_strings:
  "time_sleep (RETRY_DELAY cfg) = None \<Longrightarrow>
   (\<forall>s' e. reply_to cfg generate src s' \<noteq> Interrupts e) \<Longrightarrow>
   (\<exists>str. fst (translate_text_to_hindi cfg time_sleep generate src s) = Inr str)
   \<and> (0 < MAX_RETRIES cfg \<longrightarrow>
      (\<forall>k<nat (MAX_RETRIES cfg) - 1.
          failing_reply src (reply_to cfg generate src ((after_call cfg generate src ^^ k) s))) \<longrightarrow>
      reply_to cfg generate src ((after_call cfg generate src ^^ (nat (MAX_RETRIES cfg) - 1)) s)
        = Raises e \<longrightarrow>
      translate_text_to_hindi cfg time_sleep generate src s =
        (Inr (''Translation error after '' @ str_int (MAX_RETRIES cfg) @ '' attempts: '' @ e),
         (after_call cfg generate src ^^ nat (MAX_RETRIES cfg)) s))"
proof -
  assume sleep: "time_sleep (RETRY_DELAY cfg) = None"
    and no_interrupt: "\<forall>s' e. reply_to cfg generate src s' \<noteq> Interrupts e"
  let ?step = "after_call cfg generate src"
  let ?n = "nat (MAX_RETRIES cfg) - 1"
  from retry_loop_returns [where time_sleep = time_sleep and cfg = cfg and attempt = 0 and s = s,
      OF sleep no_interrupt] obtain r where
    "fst (retry_loop cfg time_sleep generate src 0 s) = Inr r" by blast
  then have returns: "\<exists>str. fst (translate_text_to_hindi cfg time_sleep generate src s) = Inr str"
    by (cases "retry_loop cfg time_sleep generate src 0 s")
       (simp add: translate_text_to_hindi_def translate_text_to_hindi_returned_def)
  have converted: "translate_text_to_hindi cfg time_sleep generate src s =
        (Inr (''Translation error after '' @ str_int (MAX_RETRIES cfg) @ '' attempts: '' @ e),
         (?step ^^ nat (MAX_RETRIES cfg)) s)"
    if pos: "0 < MAX_RETRIES cfg"
      and earlier: "\<forall>k<?n. failing_reply src (reply_to cfg generate src ((?step ^^ k) s))"
      and final: "reply_to cfg generate src ((?step ^^ ?n) s) = Raises e"
  proof -
    have n: "int ?n = MAX_RETRIES cfg - 1" using pos by simp
    have "retry_loop cfg time_sleep generate src 0 s
            = retry_loop cfg time_sleep generate src (0 + int ?n) ((?step ^^ ?n) s)"
      by (rule retry_loop_skip [where time_sleep = time_sleep and cfg = cfg])
         (use earlier sleep pos in simp_all)
    also have "0 + int ?n = MAX_RETRIES cfg - 1" by (simp only: n add_0)
    finally have eq: "retry_loop cfg time_sleep generate src 0 s
            = retry_loop cfg time_sleep generate src (MAX_RETRIES cfg - 1) ((?step ^^ ?n) s)" .
    have last: "retry_loop cfg time_sleep generate src (MAX_RETRIES cfg - 1) ((?step ^^ ?n) s)
            = (Inr (Failure (error_after (MAX_RETRIES cfg) e)), ?step ((?step ^^ ?n) s))"
      by (rule retry_loop_last_raises [OF refl final])
    have "?step ((?step ^^ ?n) s) = (?step ^^ Suc ?n) s" by simp
    also from pos have "Suc ?n = nat (MAX_RETRIES cfg)" by simp
    finally have st: "?step ((?step ^^ ?n) s) = (?step ^^ nat (MAX_RETRIES cfg)) s" .
    have "translate_text_to_hindi cfg time_sleep generate src s =
            (Inr (returned_text (Failure (error_after (MAX_RETRIES cfg) e))),
             (?step ^^ nat (MAX_RETRIES cfg)) s)"
      by (simp only: translate_text_to_hindi_def translate_text_to_hindi_returned_def eq last st
            prod.case sum.case)
    then show ?thesis by (simp add: error_after_def)
  qed
  from returns converted show ?thesis by blast
qed

theorem client_exceptions_become_error_strings_witness:
  "example_sleep (RETRY_DELAY default_config) = None
   \<and> 0 < MAX_RETRIES default_config
   \<and> reply_to default_config always_raises ''hello''
        ((after_call default_config always_raises ''hello'' ^^ (nat (MAX_RETRIES default_config) - 1)) 0)
      = Raises ''connection refused''
   \<and> translate_text_to_hindi default_config example_sleep always_raises ''hello'' 0
      = (Inr ''Translation error after 3 attempts: connection refused'', 3)"
proof -
  have h0: "example_sleep (RETRY_DELAY default_config) = None"
    by (simp add: example_sleep_def default_config_def)
  have h1: "\<forall>s' e. reply_to default_config always_raises ''hello'' s' \<noteq> Interrupts e"
    by (simp add: reply_to_def always_raises_def)
  have h2: "0 < MAX_RETRIES default_config"
    by (simp add: default_config_def)
  have h3: "\<forall>k<nat (MAX_RETRIES default_config) - 1.
      failing_reply ''hello'' (reply_to default_config always_raises ''hello''
         ((after_call default_config always_raises ''hello'' ^^ k) 0))"
    by (simp add: reply_to_def always_raises_def)
  have h4: "reply_to default_config always_raises ''hello''
        ((after_call default_config always_raises ''hello'' ^^ (nat (MAX_RETRIES default_config) - 1)) 0)
      = Raises ''connection refused''"
    by (simp add: reply_to_def always_raises_def)
  have st: "(after_call default_config always_raises ''hello'' ^^ nat (MAX_RETRIES default_config)) 0
              = 3"
    by (simp add: after_call_def always_raises_def default_config_def numeral_3_eq_3)
  from client_exceptions_become_error_strings
         [where time_sleep = example_sleep and cfg = default_config and s = 0
            and e = "''connection refused''", OF h0 h1] h2 h3 h4
  have "translate_text_to_hindi default_config example_sleep always_raises ''hello'' 0 =
        (Inr (''Translation error after '' @ str_int (MAX_RETRIES default_config) @ '' attempts: ''
               @ ''connection refused''),
         (after_call default_config always_raises ''hello'' ^^ nat (MAX_RETRIES default_config)) 0)"
    by blast
  with h0 h2 h4 st show ?thesis
    by (simp add: default_config_def str_int_def str_nat.simps digit_char_def)
qed

text \<open>
  No string that the engine returns is empty: an accepted response is not, and the error
  messages are not.
\<close>

lemma engine_strings_nonempty:
  "fst (translate_text_to_hindi cfg time_sleep generate src s) = Inr m \<Longrightarrow> m \<noteq> []"
proof -
  assume a: "fst (translate_text_to_hindi cfg time_sleep generate src s) = Inr m"
  obtain x s' where x: "retry_loop cfg time_sleep generate src 0 s = (x, s')"
    by (cases "retry_loop cfg time_sleep generate src 0 s")
  from a x obtain r where r: "x = Inr r" and m: "m = returned_text r"
    by (cases x) (simp_all add: translate_text_to_hindi_def translate_text_to_hindi_returned_def)
  show ?thesis
  proof (cases r)
    case (Accepted t)
    with x r have "fst (retry_loop cfg time_sleep generate src 0 s) = Inr (Accepted t)" by simp
    from retry_loop_accepted [OF this] Accepted m show ?thesis by simp
  next
    case (Failure f)
    with x r have "fst (retry_loop cfg time_sleep generate src 0 s) = Inr (Failure f)" by simp
    from retry_loop_failure_text [OF this] Failure m show ?thesis
      by (auto simp add: error_after_def)
  qed
qed

section \<open>The record store: invariant, update, fetch, summary\<close>

lemma row_invariant_set_translation:
  "row_invariant (set_translation hindi_trace now r) \<longleftrightarrow> hindi_trace \<noteq> []"
  by (simp add: row_invariant_def set_translation_def)

lemma insert_entry_invariant:
  "list_all row_invariant t \<Longrightarrow> list_all row_invariant (insert_entry now e t)"
  by (auto simp add: insert_entry_def row_invariant_def split: option.splits)

lemma fold_insert_entry_invariant:
  "list_all row_invariant t \<Longrightarrow> list_all row_invariant (fold (insert_entry now) es t)"
  by (induction es arbitrary: t) (simp_all add: insert_entry_invariant)

lemma apply_store_op_invariant:
  "store_invariant db \<Longrightarrow> writes_nonempty_text x \<Longrightarrow> apply_store_op db x = Inr db' \<Longrightarrow>
   store_invariant db'"
proof (cases x)
  case (Create entries now)
  assume "store_invariant db" "apply_store_op db x = Inr db'"
  with Create show ?thesis
    by (auto simp add: store_invariant_def save_to_database_def fold_insert_entry_invariant
          split: option.splits if_splits)
next
  case (ApplyTranslation trace_id hindi_trace now)
  assume "store_invariant db" "writes_nonempty_text x" "apply_store_op db x = Inr db'"
  with ApplyTranslation show ?thesis
    by (auto simp add: store_invariant_def update_translation_in_database_def list_all_iff
          row_invariant_set_translation split: option.splits)
next
  case (InlineUpdate entry_title' trace_en hindi_trace now)
  assume "store_invariant db" "writes_nonempty_text x" "apply_store_op db x = Inr db'"
  with InlineUpdate show ?thesis
    by (auto simp add: store_invariant_def update_by_title_and_trace_def list_all_iff
          row_invariant_set_translation split: option.splits)
qed

text \<open>
  From the fresh database, a record is created and \<open>update_translation_in_database\<close>
  is called for it with the empty string: the record is \<open>completed\<close> with an empty
  translated trace.
\<close>

theorem empty_text_breaks_invariant:
  "apply_store_ops (setup_database None) [Create [two_sum_entry] 10, ApplyTranslation 1 [] 20]
     = Inr (Some [two_sum_row\<lparr>trace_hi_with_think := Some [], translation_status := Completed,
                               translated_at := Some 20\<rparr>])
   \<and> \<not> store_invariant (Some [two_sum_row\<lparr>trace_hi_with_think := Some [],
                                 translation_status := Completed, translated_at := Some 20\<rparr>])"
  by code_simp

text \<open>
  Claim C2, as the code has it: the invariant (status \<open>completed\<close> exactly when the
  translated trace is present and not empty) holds after every sequence of
  \<open>save_to_database\<close>, \<open>update_translation_in_database\<close> and the inline UPDATE in
  which every text written by an update is not empty, from any database where it holds
  (the fresh one among them). The store itself does not look at the text.
\<close>

theorem invariant_preserved_by_nonempty_texts:
  "store_invariant db \<Longrightarrow> list_all writes_nonempty_text ops \<Longrightarrow>
   apply_store_ops db ops = Inr db' \<Longrightarrow> store_invariant db'"
proof (induction ops arbitrary: db)
  case Nil
  then show ?case by simp
next
  case (Cons x xs)
  from Cons.prems(3) obtain db1 where step: "apply_store_op db x = Inr db1"
    and rest: "apply_store_ops db1 xs = Inr db'"
    by (auto split: sum.splits)
  from Cons.prems(2) have x: "writes_nonempty_text x" and xs: "list_all writes_nonempty_text xs"
    by simp_all
  from apply_store_op_invariant [OF Cons.prems(1) x step] have "store_invariant db1" .
  from Cons.IH [OF this xs rest] show ?case .
qed

theorem invariant_preserved_by_nonempty_texts_witness:
  "store_invariant (setup_database None)
   \<and> list_all writes_nonempty_text
        [Create [two_sum_entry] 10, ApplyTranslation 1 ''do sankhyaon ka yog'' 20]
   \<and> apply_store_ops (setup_database None)
        [Create [two_sum_entry] 10, ApplyTranslation 1 ''do sankhyaon ka yog'' 20]
      = Inr (Some [two_sum_row\<lparr>trace_hi_with_think := Some ''do sankhyaon ka yog'',
                                translation_status := Completed, translated_at := Some 20\<rparr>])
   \<and> store_invariant (Some [two_sum_row\<lparr>trace_hi_with_think := Some ''do sankhyaon ka yog'',
                                translation_status := Completed, translated_at := Some 20\<rparr>])"
proof -
  have h0: "store_invariant (setup_database None)" by code_simp
  have h1: "list_all writes_nonempty_text
        [Create [two_sum_entry] 10, ApplyTranslation 1 ''do sankhyaon ka yog'' 20]" by simp
  have h2: "apply_store_ops (setup_database None)
        [Create [two_sum_entry] 10, ApplyTranslation 1 ''do sankhyaon ka yog'' 20]
      = Inr (Some [two_sum_row\<lparr>trace_hi_with_think := Some ''do sankhyaon ka yog'',
                                translation_status := Completed, translated_at := Some 20\<rparr>])"
    by code_simp
  from invariant_preserved_by_nonempty_texts [OF h0 h1 h2] h0 h1 h2 show ?thesis by blast
qed

text \<open>
  An update for an id that no row has: the UPDATE statement matches no row, nothing is
  raised and the function returns normally.
\<close>

theorem update_of_missing_id_completes:
  "sqlite_integer 42 \<and> (42::int) \<notin> row_id ` set [two_sum_row]
   \<and> \<not> isl (update_translation_in_database (Some [two_sum_row]) 42 ''anuvad'' 30)"
  by code_simp

text \<open>
  Claim C5, as the code has it: for an id that SQLite can hold (a signed 64-bit number)
  and that no row of the table has, \<open>update_translation_in_database\<close> returns
  without an error and leaves the table as it was.
\<close>

theorem update_of_missing_id_changes_nothing:
  "sqlite_integer trace_id \<Longrightarrow> trace_id \<notin> row_id ` set t \<Longrightarrow>
   update_translation_in_database (Some t) trace_id hindi_trace now = Inr (Some t)"
proof -
  assume "trace_id \<notin> row_id ` set t"
  then have "map (\<lambda>r. if row_id r = trace_id then set_translation hindi_trace now r else r) t = t"
    by (induction t) auto
  then show ?thesis by (simp add: update_translation_in_database_def)
qed

theorem update_of_missing_id_changes_nothing_witness:
  "sqlite_integer 42 \<and> (42::int) \<notin> row_id ` set [two_sum_row]
   \<and> update_translation_in_database (Some [two_sum_row]) 42 ''anuvad'' 30 = Inr (Some [two_sum_row])"
proof -
  have h0: "sqlite_integer 42" by (simp add: sqlite_integer_def)
  have h: "(42::int) \<notin> row_id ` set [two_sum_row]" by (simp add: two_sum_row_def)
  from update_of_missing_id_changes_nothing [OF h0 h] h0 h show ?thesis by blast
qed

text \<open>
  Claim C6: \<open>get_untranslated_traces\<close> returns (the id, title and English trace of)
  exactly the rows with \<open>translation_status = 'pending'\<close> or
  \<open>trace_hi_with_think IS NULL\<close>, each once, by ascending id.
\<close>

theorem get_untranslated_traces_exact_and_ordered:
  "sorted (map fst (get_untranslated_traces (Some t)))
   \<and> mset (get_untranslated_traces (Some t))
       = image_mset (\<lambda>r. (row_id r, title r, trace_en_with_think r))
           (filter_mset (\<lambda>r. translation_status r = Pending \<or> trace_hi_with_think r = None)
              (mset t))"
proof -
  have ids: "map fst (get_untranslated_traces (Some t))
               = map row_id (sort_key row_id (filter untranslated t))"
    by (simp add: get_untranslated_traces_def comp_def)
  have "sorted (map fst (get_untranslated_traces (Some t)))"
    unfolding ids by (rule sorted_sort_key)
  moreover have "mset (get_untranslated_traces (Some t))
       = image_mset (\<lambda>r. (row_id r, title r, trace_en_with_think r))
           (filter_mset (\<lambda>r. translation_status r = Pending \<or> trace_hi_with_think r = None)
              (mset t))"
    by (simp add: get_untranslated_traces_def untranslated_def)
  ultimately show ?thesis by blast
qed

theorem get_untranslated_traces_exact_and_ordered_witness:
  "get_untranslated_traces (Some (rev five_rows))
     = [(2, ''Problem'', ''Reasoning''), (4, ''Problem'', ''Reasoning'')]
   \<and> sorted (map fst (get_untranslated_traces (Some (rev five_rows))))"
proof -
  have "get_untranslated_traces (Some (rev five_rows))
     = [(2, ''Problem'', ''Reasoning''), (4, ''Problem'', ''Reasoning'')]"
    by code_simp
  with get_untranslated_traces_exact_and_ordered [of "rev five_rows"] show ?thesis by blast
qed

text \<open>
  Claim C7: two calls of \<open>update_translation_in_database\<close> in succession with the
  same id and the same text both succeed, and after the second call every row has the
  translated trace and the status it had after the first one; only \<open>translated_at\<close>
  can differ.
\<close>

theorem apply_translation_twice:
  "\<exists>t1 t2. update_translation_in_database (Some t) trace_id hindi_trace now1 = Inr (Some t1)
     \<and> update_translation_in_database (Some t1) trace_id hindi_trace now2 = Inr (Some t2)
     \<and> map row_id t2 = map row_id t1
     \<and> map trace_hi_with_think t2 = map trace_hi_with_think t1
     \<and> map translation_status t2 = map translation_status t1
     \<and> map (\<lambda>r. r\<lparr>translated_at := None\<rparr>) t2 = map (\<lambda>r. r\<lparr>translated_at := None\<rparr>) t1"
proof -
  let ?u = "\<lambda>now r. if row_id r = trace_id then set_translation hindi_trace now r else r"
  have first: "update_translation_in_database (Some t) trace_id hindi_trace now1
                 = Inr (Some (map (?u now1) t))"
    by (simp add: update_translation_in_database_def)
  have second: "update_translation_in_database (Some (map (?u now1) t)) trace_id hindi_trace now2
                 = Inr (Some (map (?u now2) (map (?u now1) t)))"
    by (simp add: update_translation_in_database_def)
  have ids: "map row_id (map (?u now2) (map (?u now1) t)) = map row_id (map (?u now1) t)"
    by (simp add: set_translation_def)
  have his: "map trace_hi_with_think (map (?u now2) (map (?u now1) t))
               = map trace_hi_with_think (map (?u now1) t)"
    by (simp add: set_translation_def)
  have sts: "map translation_status (map (?u now2) (map (?u now1) t))
               = map translation_status (map (?u now1) t)"
    by (simp add: set_translation_def)
  have others: "map (\<lambda>r. r\<lparr>translated_at := None\<rparr>) (map (?u now2) (map (?u now1) t))
               = map (\<lambda>r. r\<lparr>translated_at := None\<rparr>) (map (?u now1) t)"
    by (simp add: set_translation_def)
  from first second ids his sts others show ?thesis by blast
qed

theorem apply_translation_twice_witness:
  "update_translation_in_database (Some [two_sum_row]) 1 ''do sankhyaon ka yog'' 20
     = Inr (Some [two_sum_row\<lparr>trace_hi_with_think := Some ''do sankhyaon ka yog'',
                               translation_status := Completed, translated_at := Some 20\<rparr>])
   \<and> update_translation_in_database
        (Some [two_sum_row\<lparr>trace_hi_with_think := Some ''do sankhyaon ka yog'',
                           translation_status := Completed, translated_at := Some 20\<rparr>])
        1 ''do sankhyaon ka yog'' 30
     = Inr (Some [two_sum_row\<lparr>trace_hi_with_think := Some ''do sankhyaon ka yog'',
                               translation_status := Completed, translated_at := Some 30\<rparr>])"
proof -
  from apply_translation_twice [of "[two_sum_row]" 1 "''do sankhyaon ka yog''" 20 30]
  show ?thesis
    by (simp add: update_translation_in_database_def set_translation_def two_sum_row_def)
qed

text \<open>
  Claim C8: on a table that satisfies the invariant, \<open>check_database_status\<close> returns
  the number of rows, the number of rows with status \<open>completed\<close> and the number of
  rows with status \<open>pending\<close>. (The queries also look at \<open>trace_hi_with_think\<close>;
  under the invariant that changes nothing.)
\<close>

theorem status_summary_counts:
  "list_all row_invariant t \<Longrightarrow>
   check_database_status (Some t)
     = Some \<lparr>total_traces = length t,
             completed_translations = length (filter (\<lambda>r. translation_status r = Completed) t),
             pending_translations = length (filter (\<lambda>r. translation_status r = Pending) t)\<rparr>"
proof -
  assume inv: "list_all row_invariant t"
  have c: "filter (\<lambda>r. translation_status r = Completed \<and> trace_hi_with_think r \<noteq> None) t
             = filter (\<lambda>r. translation_status r = Completed) t"
    using inv by (intro filter_cong refl) (auto simp add: list_all_iff row_invariant_def split: option.splits)
  have p: "filter (\<lambda>r. translation_status r = Pending \<or> trace_hi_with_think r = None) t
             = filter (\<lambda>r. translation_status r = Pending) t"
    using inv
    by (intro filter_cong refl)
       (auto simp add: list_all_iff row_invariant_def split: option.splits intro: status.exhaust)
  show ?thesis by (simp only: check_database_status_def option.case c p)
qed

theorem status_summary_counts_witness:
  "list_all row_invariant five_rows
   \<and> length five_rows = 5
   \<and> length (filter (\<lambda>r. translation_status r = Completed) five_rows) = 3
   \<and> length (filter (\<lambda>r. translation_status r = Pending) five_rows) = 2
   \<and> check_database_status (Some five_rows)
       = Some \<lparr>total_traces = 5, completed_translations = 3, pending_translations = 2\<rparr>"
proof -
  have h: "list_all row_invariant five_rows" by code_simp
  have n: "length five_rows = 5"
    "length (filter (\<lambda>r. translation_status r = Completed) five_rows) = 3"
    "length (filter (\<lambda>r. translation_status r = Pending) five_rows) = 2"
    by (simp_all add: five_rows_def example_row_def)
  from status_summary_counts [OF h] h n show ?thesis by simp
qed

section \<open>The orchestrator: inline update, and failures of the engine\<close>



text \<open>
  Every error message that the engine returns passes the test of translate\_pipeline.py
  line 178: none of them starts with one of the four prefixes looked for there.
\<close>

lemma error_after_passes_prefix_check:
  "\<not> startswith_any (error_after n msg) error_prefixes"
  by (simp add: startswith_any_def startswith_def error_after_def error_prefixes_def)

lemma engine_failure_passes_prefix_check:
  "translate_reasoning_trace_returned cfg time_sleep generate trace_en ttl s = (Inr (Failure m), s') \<Longrightarrow>
   translate_reasoning_trace cfg time_sleep generate trace_en ttl s = (Inr m, s')
   \<and> \<not> startswith_any m error_prefixes"
proof -
  assume r: "translate_reasoning_trace_returned cfg time_sleep generate trace_en ttl s
               = (Inr (Failure m), s')"
  then have "fst (retry_loop cfg time_sleep generate (contextual_prompt trace_en) 0 s)
               = Inr (Failure m)"
    by (simp add: translate_reasoning_trace_returned_def translate_text_to_hindi_returned_def)
  from retry_loop_failure_text [OF this]
  have "\<not> startswith_any m error_prefixes"
    using error_after_passes_prefix_check
    by (auto simp add: startswith_any_def startswith_def error_prefixes_def)
  with r show ?thesis
    by (simp add: translate_reasoning_trace_returned_def translate_reasoning_trace_def
          translate_text_to_hindi_def)
qed

text \<open>
  Claim C1, at a store with one pending record and a client that raises on every call:
  the engine returns its error message; batch mode stores that message as the translation,
  marks the record \<open>completed\<close> and counts a success and no failure; inline mode
  stores it in the same way. The claim says that the result is not applied, that the
  failure counter goes up and that the record stays \<open>pending\<close>.
\<close>

theorem failure_result_is_applied:
  "translate_reasoning_trace_returned default_config example_sleep always_raises
      (trace_en_with_think two_sum_row) (title two_sum_row) 0
     = (Inr (Failure ''Translation error after 3 attempts: connection refused''), 3)
   \<and> translate_all_pending_traces default_config example_sleep always_raises example_clock
       \<lparr>world_db = Some [two_sum_row], world_client = 0, world_ticks = 0\<rparr>
     = Inr (\<lparr>world_db =
                Some [two_sum_row\<lparr>trace_hi_with_think :=
                                    Some ''Translation error after 3 attempts: connection refused'',
                                  translation_status := Completed, translated_at := Some 100\<rparr>],
              world_client = 3, world_ticks = 1\<rparr>,
            Some \<lparr>total_processed = 1, successful_translations_of = 1,
                  failed_translations_of = 0\<rparr>)
   \<and> main_step default_config example_sleep always_raises example_clock
        (title two_sum_row, content two_sum_row, trace_en_with_think two_sum_row)
        \<lparr>world_db = Some [], world_client = 0, world_ticks = 0\<rparr>
     = Inr \<lparr>world_db =
              Some [two_sum_row\<lparr>trace_hi_with_think :=
                                  Some ''Translation error after 3 attempts: connection refused'',
                                translation_status := Completed, created_at := 100,
                                translated_at := Some 101\<rparr>],
            world_client = 3, world_ticks = 2\<rparr>"
  by code_simp

end
